theory Spec2Isabelle
  imports Complex_Main "HOL-Library.Word" "HOL-Library.Sublist"
begin

section \<open>Python values and errors\<close>

text \<open>
  The exceptions the modelled code can raise. Every function that can raise returns
  \<open>py_error + 'a\<close>, with \<open>Inl\<close> for the exception.
\<close>

datatype py_error =
    IndexError
  | ValueError
  | Cv2Error
  | AttributeError
  | MemoryError
  | ZeroDivisionError
  | RuntimeError

text \<open>Python list indexing \<open>xs[i]\<close>: a negative index counts from the end.\<close>

definition py_getitem :: "'a list \<Rightarrow> int \<Rightarrow> py_error + 'a" where
  "py_getitem xs i =
     (let n = int (length xs);
          j = (if i < 0 then i + n else i)
      in if j < 0 \<or> n \<le> j then Inl IndexError else Inr (xs ! nat j))"

text \<open>
  The index a slice bound \<open>i\<close> denotes on a sequence of length \<open>n\<close>: negative
  bounds count from the end, and the result is clipped to \<open>0..n\<close>.
\<close>

definition py_clip :: "int \<Rightarrow> nat \<Rightarrow> nat" where
  "py_clip i n = (if i < 0 then nat (max (i + int n) 0) else min (nat i) n)"

text \<open>Python slicing \<open>xs[i:]\<close>; it never raises.\<close>

definition py_slice_from :: "'a list \<Rightarrow> int \<Rightarrow> 'a list" where
  "py_slice_from xs i = drop (py_clip i (length xs)) xs"

section \<open>VideoFrames: the per-source frame buffer\<close>

text \<open>
  \<open>class VideoFrames\<close>: the list \<open>self.frames\<close> of pairs (arrival time, image) and the
  target rectangle on the canvas. Arrival times are the values of \<open>time.time()\<close>; the
  buffer only compares them, so the model is generic in a linear order \<open>'t\<close>. The image
  type is generic too: the buffer never looks inside an image.
\<close>

record ('t, 'img) video_frames =
  frames :: "('t \<times> 'img) list"
  target_x :: int
  target_y :: int
  target_w :: int
  target_h :: int

definition VideoFrames_init :: "int \<Rightarrow> int \<Rightarrow> int \<Rightarrow> int \<Rightarrow> ('t, 'img) video_frames" where
  "VideoFrames_init tx ty tw th =
     \<lparr>frames = [], target_x = tx, target_y = ty, target_w = tw, target_h = th\<rparr>"

text \<open>
  \<open>callback_image\<close>: the conversion of the message either fails (\<open>CvBridgeError\<close>, logged,
  the buffer is left alone) or gives \<open>cv_image\<close>, which is appended with the clock
  reading \<open>now\<close>.
\<close>

definition callback_image ::
  "'t \<Rightarrow> 'img option \<Rightarrow> ('t, 'img) video_frames \<Rightarrow> ('t, 'img) video_frames" where
  "callback_image now converted self =
     (case converted of
        None \<Rightarrow> self
      | Some cv_image \<Rightarrow> self\<lparr>frames := frames self @ [(now, cv_image)]\<rparr>)"

text \<open>
  \<open>get_latest\<close>: the filter, the early \<open>return None\<close>, \<open>fs[-1]\<close>, the trim
  \<open>self.frames[len(fs) - 1:]\<close> and \<open>return f[1]\<close>. The result pairs the returned value
  (\<open>None\<close> or the image) with the updated buffer.
\<close>

definition get_latest ::
  "'t::linorder \<Rightarrow> bool \<Rightarrow> ('t, 'img) video_frames \<Rightarrow>
     py_error + ('img option \<times> ('t, 'img) video_frames)" where
  "get_latest at_time remove_older self =
     (let fs = filter (\<lambda>x. fst x \<le> at_time) (frames self) in
      if length fs = 0 then Inr (None, self)
      else
        (case py_getitem fs (- 1) of
           Inl e \<Rightarrow> Inl e
         | Inr f \<Rightarrow>
             Inr (Some (snd f),
                  if remove_older
                  then self\<lparr>frames := py_slice_from (frames self) (int (length fs) - 1)\<rparr>
                  else self)))"

text \<open>
  A sequence of successful \<open>callback_image\<close> calls, oldest first, each with its clock
  reading.
\<close>

definition appends ::
  "('t \<times> 'img) list \<Rightarrow> ('t, 'img) video_frames \<Rightarrow> ('t, 'img) video_frames" where
  "appends xs self = fold (\<lambda>x. callback_image (fst x) (Some (snd x))) xs self"



section \<open>Images and the canvas\<close>

text \<open>
  A \<open>bgr8\<close> image or canvas is a numpy array of shape \<open>(nrows, ncols, 3)\<close> and type
  \<open>uint8\<close>: a pixel is three bytes, and the array keeps its shape beside its rows, so
  that an array with no rows still has a width.
\<close>

type_synonym pixel = "8 word \<times> 8 word \<times> 8 word"

record ndarray =
  nrows :: nat
  ncols :: nat
  pix :: "pixel list list"

definition well_shaped :: "ndarray \<Rightarrow> bool" where
  "well_shaped a \<longleftrightarrow>
     length (pix a) = nrows a \<and> list_all (\<lambda>row. length row = ncols a) (pix a)"

text \<open>
  numpy and OpenCV are not this repository's. The model takes their documented
  behaviour and leaves three things to a parameter, the libraries of the machine the
  recorder runs on: the interpolation of \<open>cv2.resize\<close> (the value of the destination
  pixel at a row and column, from the source and the destination width and height), and
  for each library whether it can create an array of a given number of rows and
  columns, \<open>None\<close> when it can and otherwise the exception it raises (numpy:
  \<open>ValueError\<close> or \<open>MemoryError\<close> for an array too large; OpenCV: \<open>cv2.error\<close>).
\<close>

type_synonym interpolation = "ndarray \<Rightarrow> nat \<Rightarrow> nat \<Rightarrow> nat \<Rightarrow> nat \<Rightarrow> pixel"

record libraries =
  interpolate :: interpolation
  np_create :: "nat \<Rightarrow> nat \<Rightarrow> py_error option"
  cv_create :: "nat \<Rightarrow> nat \<Rightarrow> py_error option"

text \<open>The largest C \<open>int\<close>: OpenCV keeps the width and height of a size in one each.\<close>

definition INT_MAX :: int where
  "INT_MAX = 2147483647"

text \<open>
  \<open>np.zeros((h, w, 3), np.uint8)\<close>; numpy raises \<open>ValueError\<close> on a negative dimension,
  and raises when it cannot create an array of the size.
\<close>

definition np_zeros :: "libraries \<Rightarrow> int \<Rightarrow> int \<Rightarrow> py_error + ndarray" where
  "np_zeros lib h w =
     (if h < 0 \<or> w < 0 then Inl ValueError
      else
        (case np_create lib (nat h) (nat w) of
           Some e \<Rightarrow> Inl e
         | None \<Rightarrow>
             Inr \<lparr>nrows = nat h, ncols = nat w,
                  pix = replicate (nat h) (replicate (nat w) (0, 0, 0))\<rparr>))"

text \<open>
  \<open>cv2.resize(src, (w, h))\<close> fails (\<open>cv2.error\<close>) on an empty source, on a size that is
  not positive or does not fit a C \<open>int\<close>, and when OpenCV cannot create the
  destination; otherwise it returns an image of exactly \<open>h\<close> rows and \<open>w\<close> columns.
\<close>

definition cv2_resize :: "libraries \<Rightarrow> ndarray \<Rightarrow> int \<times> int \<Rightarrow> py_error + ndarray" where
  "cv2_resize lib src dsize =
     (let w = fst dsize; h = snd dsize in
      if nrows src = 0 \<or> ncols src = 0 \<or> w \<le> 0 \<or> h \<le> 0 \<or> INT_MAX < w \<or> INT_MAX < h
      then Inl Cv2Error
      else
        (case cv_create lib (nat h) (nat w) of
           Some e \<Rightarrow> Inl e
         | None \<Rightarrow>
             Inr \<lparr>nrows = nat h, ncols = nat w,
                  pix = map (\<lambda>r. map (\<lambda>c. interpolate lib src (nat w) (nat h) r c) [0..<nat w])
                            [0..<nat h]\<rparr>))"

text \<open>
  One machine, for concrete runs. Its interpolation takes the source pixel at the
  proportional position (nearest neighbour, rounding down), and each library creates
  arrays of up to \<open>2^20\<close> bytes.
\<close>

definition nearest :: interpolation where
  "nearest src w h r c = pix src ! (r * nrows src div h) ! (c * ncols src div w)"

definition small_machine :: libraries where
  "small_machine =
     \<lparr>interpolate = nearest,
      np_create = (\<lambda>h w. if h * w * 3 \<le> 1048576 then None else Some MemoryError),
      cv_create = (\<lambda>h w. if h * w * 3 \<le> 1048576 then None else Some Cv2Error)\<rparr>"

text \<open>
  The index range a slice \<open>a:b\<close> selects on an axis of length \<open>n\<close>: both bounds clipped
  as Python does, and empty when the stop is not after the start.
\<close>

definition slice_range :: "int \<Rightarrow> int \<Rightarrow> nat \<Rightarrow> nat \<times> nat" where
  "slice_range a b n = (py_clip a n, max (py_clip a n) (py_clip b n))"

text \<open>
  \<open>canvas[y0:y1, x0:x1] = val\<close>. numpy broadcasts \<open>val\<close> to the shape of the selected
  rectangle: on each axis the extent of \<open>val\<close> must equal the rectangle's or be 1 (the
  single row or column is then repeated); otherwise it raises \<open>ValueError\<close>. The
  canvas keeps its shape.
\<close>

definition setitem_slice ::
  "ndarray \<Rightarrow> int \<Rightarrow> int \<Rightarrow> int \<Rightarrow> int \<Rightarrow> ndarray \<Rightarrow> py_error + ndarray" where
  "setitem_slice canvas y0 y1 x0 x1 val =
     (let (rs, re) = slice_range y0 y1 (nrows canvas);
          (cs, ce) = slice_range x0 x1 (ncols canvas)
      in if (nrows val = re - rs \<or> nrows val = 1) \<and> (ncols val = ce - cs \<or> ncols val = 1)
         then Inr (canvas\<lparr>pix :=
                map (\<lambda>r. map (\<lambda>c.
                       if rs \<le> r \<and> r < re \<and> cs \<le> c \<and> c < ce
                       then pix val ! (if nrows val = 1 then 0 else r - rs)
                                    ! (if ncols val = 1 then 0 else c - cs)
                       else pix canvas ! r ! c)
                     [0..<ncols canvas])
                  [0..<nrows canvas]\<rparr>)
         else Inl ValueError)"

section \<open>Composition: the \<open>for\<close> loop of a tick\<close>

text \<open>
  The body of \<open>for frame_w in self.frame_wrappers\<close>, for one wrapper: the query with
  the default \<open>remove_older=True\<close>, \<open>continue\<close> when there is no frame, otherwise the
  resize to the target size and the write into the target rectangle. An exception of
  the resize or of the write leaves the loop.
\<close>

definition draw_frame ::
  "libraries \<Rightarrow> 't::linorder \<Rightarrow> ('t, ndarray) video_frames \<Rightarrow> ndarray \<Rightarrow>
     py_error + (('t, ndarray) video_frames \<times> ndarray)" where
  "draw_frame lib curr_time frame_w canvas =
     (case get_latest curr_time True frame_w of
        Inl e \<Rightarrow> Inl e
      | Inr (f, frame_w') \<Rightarrow>
          (case f of
             None \<Rightarrow> Inr (frame_w', canvas)
           | Some img \<Rightarrow>
               (case cv2_resize lib img (target_w frame_w, target_h frame_w) of
                  Inl e \<Rightarrow> Inl e
                | Inr resized \<Rightarrow>
                    (case setitem_slice canvas
                            (target_y frame_w) (target_y frame_w + target_h frame_w)
                            (target_x frame_w) (target_x frame_w + target_w frame_w)
                            resized of
                       Inl e \<Rightarrow> Inl e
                     | Inr canvas' \<Rightarrow> Inr (frame_w', canvas')))))"

fun draw_frames ::
  "libraries \<Rightarrow> 't::linorder \<Rightarrow> ('t, ndarray) video_frames list \<Rightarrow> ndarray \<Rightarrow>
     py_error + (('t, ndarray) video_frames list \<times> ndarray)" where
  "draw_frames lib curr_time [] canvas = Inr ([], canvas)"
| "draw_frames lib curr_time (frame_w # rest) canvas =
     (case draw_frame lib curr_time frame_w canvas of
        Inl e \<Rightarrow> Inl e
      | Inr (frame_w', canvas') \<Rightarrow>
          (case draw_frames lib curr_time rest canvas' of
             Inl e \<Rightarrow> Inl e
           | Inr (rest', canvas'') \<Rightarrow> Inr (frame_w' # rest', canvas'')))"

text \<open>
  The composition of one tick: the new zero canvas of the configured size, then the
  loop over the wrappers in their order. It returns the wrappers, with their buffers
  trimmed, and the canvas.
\<close>

definition compose_canvas ::
  "libraries \<Rightarrow> int \<Rightarrow> int \<Rightarrow> 't::linorder \<Rightarrow> ('t, ndarray) video_frames list \<Rightarrow>
     py_error + (('t, ndarray) video_frames list \<times> ndarray)" where
  "compose_canvas lib output_height output_width curr_time frame_wrappers =
     (case np_zeros lib output_height output_width of
        Inl e \<Rightarrow> Inl e
      | Inr canvas \<Rightarrow> draw_frames lib curr_time frame_wrappers canvas)"

text \<open>
  Whether a wrapper has a frame for a query at \<open>t\<close>, and whether the rectangle its write
  selects on a canvas of \<open>h\<close> rows and \<open>w\<close> columns holds the pixel at a row and column.
\<close>

definition has_frame :: "'t::linorder \<Rightarrow> ('t, 'img) video_frames \<Rightarrow> bool" where
  "has_frame t frame_w \<longleftrightarrow> list_ex (\<lambda>x. fst x \<le> t) (frames frame_w)"

definition covers :: "nat \<Rightarrow> nat \<Rightarrow> ('t, 'img) video_frames \<Rightarrow> nat \<Rightarrow> nat \<Rightarrow> bool" where
  "covers h w frame_w r c \<longleftrightarrow>
     (let (rs, re) = slice_range (target_y frame_w) (target_y frame_w + target_h frame_w) h;
          (cs, ce) = slice_range (target_x frame_w) (target_x frame_w + target_w frame_w) w
      in rs \<le> r \<and> r < re \<and> cs \<le> c \<and> c < ce)"

text \<open>
  The region a binding is meant to have: offsets that are not negative, a positive
  size, and inside a canvas of \<open>h\<close> rows and \<open>w\<close> columns.
\<close>

definition region_ok :: "int \<Rightarrow> int \<Rightarrow> ('t, 'img) video_frames \<Rightarrow> bool" where
  "region_ok h w frame_w \<longleftrightarrow>
     0 \<le> target_x frame_w \<and> 0 \<le> target_y frame_w \<and>
     0 < target_w frame_w \<and> 0 < target_h frame_w \<and>
     target_x frame_w + target_w frame_w \<le> w \<and>
     target_y frame_w + target_h frame_w \<le> h"

text \<open>
  What lets the resize and the write of a wrapper's frame succeed on a canvas of \<open>h\<close>
  rows and \<open>w\<close> columns: the region is as above, its size fits a C \<open>int\<close>, OpenCV can
  create the resized image, and no stored image is empty.
\<close>

definition drawable :: "libraries \<Rightarrow> int \<Rightarrow> int \<Rightarrow> ('t, ndarray) video_frames \<Rightarrow> bool" where
  "drawable lib h w frame_w \<longleftrightarrow>
     region_ok h w frame_w \<and>
     target_w frame_w \<le> INT_MAX \<and> target_h frame_w \<le> INT_MAX \<and>
     cv_create lib (nat (target_h frame_w)) (nat (target_w frame_w)) = None \<and>
     list_all (\<lambda>x. 0 < nrows (snd x) \<and> 0 < ncols (snd x)) (frames frame_w)"

section \<open>VideoRecorder: the session and the tick loop\<close>

text \<open>
  What the recorder does to the world, in the order it does it: log lines, sleeps
  (\<open>rospy.sleep\<close>, \<open>Rate.sleep\<close>) with their requested duration, the opening of a
  \<open>cv2.VideoWriter\<close>, a canvas written to it, a canvas published, the release of the
  writer, and a service call that ended in an exception.
\<close>

datatype event =
    LogInfo string
  | LogErr string
  | Sleep real
  | Opened string
  | Wrote ndarray
  | Published ndarray
  | Released
  | ServiceFailed py_error

fun sleeps :: "event list \<Rightarrow> real list" where
  "sleeps [] = []"
| "sleeps (Sleep d # es) = d # sleeps es"
| "sleeps (e # es) = sleeps es"

fun canvases :: "event list \<Rightarrow> ndarray list" where
  "canvases [] = []"
| "canvases (Wrote c # es) = c # canvases es"
| "canvases (e # es) = canvases es"

text \<open>
  The attributes of \<open>class VideoRecorder\<close> that the session and the tick loop read or
  write. Times are the values of \<open>time.time()\<close>, taken as real numbers. The attribute
  \<open>output_file\<close> does not exist until \<open>record_spin\<close> assigns it: \<open>None\<close> stands for the
  missing attribute. \<open>video_writer\<close> is \<open>None\<close> or the writer, known by its file;
  \<open>pub_img\<close> is \<open>None\<close> or the publisher, known by its topic. The \<open>fourcc\<close> code and the
  bridge carry no state of their own and are left out.
\<close>

record recorder =
  frame_wrappers :: "(real, ndarray) video_frames list"
  start_time :: real
  end_time :: real
  pub_img :: "string option"
  fps :: int
  interval :: real
  output_width :: int
  output_height :: int
  record_flag :: bool
  output_path :: string
  output_file :: "string option"
  video_writer :: "string option"

text \<open>\<open>__init__\<close>: \<open>1.0 / self.fps\<close> raises \<open>ZeroDivisionError\<close> when the rate is zero.\<close>

definition VideoRecorder_init ::
  "int \<Rightarrow> int \<Rightarrow> int \<Rightarrow> string \<Rightarrow> bool \<Rightarrow> py_error + recorder" where
  "VideoRecorder_init width height output_fps path initial_start =
     (if output_fps = 0 then Inl ZeroDivisionError
      else Inr \<lparr>frame_wrappers = [], start_time = - 1, end_time = - 1, pub_img = None,
                fps = output_fps, interval = 1 / real_of_int output_fps,
                output_width = width, output_height = height,
                record_flag = initial_start, output_path = path,
                output_file = None, video_writer = None\<rparr>)"

definition add_subscription :: "(real, ndarray) video_frames \<Rightarrow> recorder \<Rightarrow> recorder" where
  "add_subscription subscription self =
     self\<lparr>frame_wrappers := frame_wrappers self @ [subscription]\<rparr>"

definition set_broadcast :: "string \<Rightarrow> recorder \<Rightarrow> recorder" where
  "set_broadcast publish_topic self =
     (if publish_topic = [] then self\<lparr>pub_img := None\<rparr>
      else self\<lparr>pub_img := Some publish_topic\<rparr>)"

text \<open>
  \<open>terminate\<close>: the log line formats \<open>self.output_file\<close> first, which raises
  \<open>AttributeError\<close> when the attribute was never assigned; only then are the end time and
  the flag set. \<open>now\<close> is the reading of \<open>time.time()\<close>.
\<close>

definition terminate :: "real \<Rightarrow> recorder \<Rightarrow> py_error + (recorder \<times> event list)" where
  "terminate now self =
     (case output_file self of
        None \<Rightarrow> Inl AttributeError
      | Some file \<Rightarrow>
          Inr (self\<lparr>end_time := now, record_flag := False\<rparr>,
               [LogInfo (''[ros-video-recorder] Video Saved. file='' @ file)]))"

text \<open>
  The two service callbacks. A callback that returns has answered the empty response
  \<open>[]\<close>; one that raises has not.
\<close>

definition start_srv_cb :: "recorder \<Rightarrow> py_error + (recorder \<times> event list)" where
  "start_srv_cb self =
     (if record_flag self
      then Inr (self, [LogInfo ''[ros-video-recorder] Record already Started.''])
      else Inr (self\<lparr>record_flag := True\<rparr>, []))"

definition stop_srv_cb :: "real \<Rightarrow> recorder \<Rightarrow> py_error + (recorder \<times> event list)" where
  "stop_srv_cb now self =
     (if record_flag self
      then
        (case terminate now self of
           Inl e \<Rightarrow> Inl e
         | Inr (self', logged) \<Rightarrow>
             Inr (self', LogInfo ''[ros-video-recorder] Record Stopped.'' # logged))
      else Inr (self, [LogInfo ''[ros-video-recorder] Record already Stopped.'']))"

text \<open>
  What the environment decides while the main thread runs one iteration of one of its
  two loops: the answer of \<open>rospy.is_shutdown()\<close>, whether a \<open>KeyboardInterrupt\<close> arrives
  while the thread sleeps inside the \<open>try\<close> block, the reading of \<open>time.time()\<close> taken
  by \<open>start_record\<close> or by \<open>terminate\<close>, the formatted date, whether the conversion of the
  canvas to a message fails, and the readings of \<open>time.time()\<close> that the wait at the end
  of a tick takes, in order.
\<close>

record environment =
  is_shutdown :: bool
  interrupted :: bool
  clock :: real
  stamp :: string
  bridge_fails :: bool
  readings :: "real list"

text \<open>
  \<open>while curr_time + self.interval > time.time(): rospy.sleep(self.interval)\<close>: the
  number of sleeps, or \<open>None\<close> when the loop is still waiting after the last reading
  that the environment lists.
\<close>

fun wait_loop :: "real \<Rightarrow> real \<Rightarrow> real list \<Rightarrow> nat option" where
  "wait_loop curr_time ival [] = None"
| "wait_loop curr_time ival (reading # rest) =
     (if curr_time + ival > reading
      then map_option Suc (wait_loop curr_time ival rest)
      else Some 0)"

text \<open>
  One iteration of the loop of \<open>start_record\<close>, from \<open>try\<close> to the end of the body. It
  ends in one of four ways: the body ran to \<open>curr_time += self.interval\<close>; a
  \<open>KeyboardInterrupt\<close> was caught, \<open>terminate\<close> ran and the loop continued; another
  exception left the loop; or the wait never ended. The interrupt is delivered where
  the thread sleeps, in \<open>rospy.sleep(0.01)\<close>, after the canvas has gone to the sinks.
  The text of a caught \<open>CvBridgeError\<close> is not part of the logged line here.
\<close>

datatype tick_result =
    Advanced recorder real "event list"
  | Caught recorder real "event list"
  | Raised py_error
  | Blocked

definition tick :: "libraries \<Rightarrow> environment \<Rightarrow> recorder \<Rightarrow> real \<Rightarrow> tick_result" where
  "tick lib env self curr_time =
     (case compose_canvas lib (output_height self) (output_width self) curr_time
             (frame_wrappers self) of
        Inl e \<Rightarrow> Raised e
      | Inr (wrappers, canvas) \<Rightarrow>
          (let self1 = self\<lparr>frame_wrappers := wrappers\<rparr>;
               written = (if video_writer self1 \<noteq> None then [Wrote canvas] else []);
               published =
                 (if pub_img self1 \<noteq> None
                  then (if bridge_fails env then [LogErr ''cvbridgeerror, e=''] else [Published canvas])
                  else [])
           in if interrupted env
              then
                (case terminate (clock env) self1 of
                   Inl e \<Rightarrow> Raised e
                 | Inr (self2, logged) \<Rightarrow> Caught self2 curr_time (written @ published @ logged))
              else
                (case (if is_shutdown env \<and> end_time self1 < 0
                       then terminate (clock env) self1 else Inr (self1, [])) of
                   Inl e \<Rightarrow> Raised e
                 | Inr (self2, logged) \<Rightarrow>
                     (case wait_loop curr_time (interval self2) (readings env) of
                        None \<Rightarrow> Blocked
                      | Some n \<Rightarrow>
                          Advanced self2 (curr_time + interval self2)
                            (written @ published @ [Sleep (1 / 100)] @ logged @
                             replicate n (Sleep (interval self2)))))))"

section \<open>The main thread and the service calls together\<close>

text \<open>
  \<open>str.replace(old, new)\<close>: every occurrence of \<open>old\<close>, found from the left, is
  replaced; an empty \<open>old\<close> matches before every character and at the end.
\<close>

function py_replace :: "string \<Rightarrow> string \<Rightarrow> string \<Rightarrow> string" where
  "py_replace s old new =
     (if old = [] then new @ concat (map (\<lambda>c. c # new) s)
      else if s = [] then []
      else if prefix old s then new @ py_replace (drop (length old) s) old new
      else hd s # py_replace (tl s) old new)"
  by pat_completeness auto
termination
  by (relation "measure (\<lambda>(s, old, new). length s)") auto

text \<open>
  Where the main thread stands: at the head of the wait loop of \<open>record_spin\<close>, at the
  head of the loop of \<open>start_record\<close>, inside a wait that never ends, after \<open>sys.exit()\<close>,
  or dead from an exception that nothing catches.
\<close>

datatype position = Waiting | Ticking | Hung | Exited | Crashed py_error

text \<open>
  The recorder object, the position of the main thread, the local \<open>curr_time\<close> of
  \<open>start_record\<close>, the number of calls of \<open>record_spin\<close> that have not returned, and
  everything done so far.
\<close>

record main_state =
  obj :: recorder
  loop :: position
  tick_time :: real
  depth :: nat
  trace :: "event list"

text \<open>The state when the module calls \<open>ft.record_spin()\<close>.\<close>

definition boot :: "recorder \<Rightarrow> main_state" where
  "boot r = \<lparr>obj = r, loop = Waiting, tick_time = - 1, depth = 1, trace = []\<rparr>"

text \<open>
  One turn of \<open>record_spin\<close> at the head of its wait loop. While there is neither a
  shutdown nor the flag, the thread sleeps and logs, and an interrupt of the sleep ends
  the process through \<open>sys.exit()\<close>. Otherwise the loop is left: the writer is opened
  when a path is configured, and \<open>start_record\<close> begins with its three assignments.
\<close>

definition record_spin_step :: "environment \<Rightarrow> main_state \<Rightarrow> main_state" where
  "record_spin_step env st =
     (let self = obj st in
      if \<not> is_shutdown env \<and> \<not> record_flag self
      then
        (if interrupted env then st\<lparr>loop := Exited\<rparr>
         else st\<lparr>trace := trace st @
                 [Sleep 1, LogInfo ''[ros-video-recorder] Record waiting.'']\<rparr>)
      else
        (let file = py_replace (output_path self) ''[timestamp]'' (stamp env);
             self1 =
               (if output_path self \<noteq> []
                then self\<lparr>output_file := Some file, video_writer := Some file\<rparr>
                else self\<lparr>video_writer := None\<rparr>);
             opened =
               (if output_path self \<noteq> []
                then [Opened file,
                      LogInfo (''[ros-video-recorder] Record Started. file='' @ file)]
                else [])
         in st\<lparr>obj := self1\<lparr>start_time := clock env, end_time := - 1\<rparr>,
               loop := Ticking, tick_time := clock env, trace := trace st @ opened\<rparr>))"

text \<open>
  One turn of \<open>start_record\<close> at the head of its loop: a tick while the condition
  holds; otherwise the release of the writer and the call of \<open>record_spin\<close> from inside
  \<open>record_spin\<close>, which Python allows only up to its recursion limit. \<open>limit\<close> is the
  number of nested calls of \<open>record_spin\<close> that fit under that limit.
\<close>

definition start_record_step ::
  "libraries \<Rightarrow> nat \<Rightarrow> environment \<Rightarrow> main_state \<Rightarrow> main_state" where
  "start_record_step lib limit env st =
     (let self = obj st in
      if (end_time self < 0 \<or> tick_time st \<le> end_time self) \<and> record_flag self
      then
        (case tick lib env self (tick_time st) of
           Advanced self' t' evs \<Rightarrow> st\<lparr>obj := self', tick_time := t', trace := trace st @ evs\<rparr>
         | Caught self' t' evs \<Rightarrow> st\<lparr>obj := self', tick_time := t', trace := trace st @ evs\<rparr>
         | Raised e \<Rightarrow> st\<lparr>loop := Crashed e\<rparr>
         | Blocked \<Rightarrow> st\<lparr>loop := Hung\<rparr>)
      else
        (let released = (if video_writer self \<noteq> None then [Released] else []) in
         if depth st < limit
         then st\<lparr>loop := Waiting, depth := Suc (depth st), trace := trace st @ released\<rparr>
         else st\<lparr>loop := Crashed RuntimeError, trace := trace st @ released\<rparr>))"

text \<open>
  What can happen next: the main thread takes a turn, or a \<open>start\<close> or \<open>stop\<close> request
  is served (with the clock reading that \<open>terminate\<close> would take). The service threads
  run between the turns of the main thread and end with the process; a callback that
  raises changes nothing and fails its request.
\<close>

datatype action = Main environment | Start | Stop real

definition alive :: "main_state \<Rightarrow> bool" where
  "alive st \<longleftrightarrow> loop st = Waiting \<or> loop st = Ticking \<or> loop st = Hung"

definition serve :: "py_error + (recorder \<times> event list) \<Rightarrow> main_state \<Rightarrow> main_state" where
  "serve outcome st =
     (case outcome of
        Inl e \<Rightarrow> st\<lparr>trace := trace st @ [ServiceFailed e]\<rparr>
      | Inr (self', evs) \<Rightarrow> st\<lparr>obj := self', trace := trace st @ evs\<rparr>)"

definition step :: "libraries \<Rightarrow> nat \<Rightarrow> action \<Rightarrow> main_state \<Rightarrow> main_state" where
  "step lib limit a st =
     (case a of
        Main env \<Rightarrow>
          (case loop st of
             Waiting \<Rightarrow> record_spin_step env st
           | Ticking \<Rightarrow> start_record_step lib limit env st
           | _ \<Rightarrow> st)
      | Start \<Rightarrow> (if alive st then serve (start_srv_cb (obj st)) st else st)
      | Stop t \<Rightarrow> (if alive st then serve (stop_srv_cb t (obj st)) st else st))"

definition run :: "libraries \<Rightarrow> nat \<Rightarrow> action list \<Rightarrow> main_state \<Rightarrow> main_state" where
  "run lib limit actions st = fold (step lib limit) actions st"

text \<open>
  The states of the session, read off the program: it is recording when the next turn
  of the main thread is a tick, and stopped when \<open>terminate\<close> has set the end time and
  cleared the flag.
\<close>

definition recording :: "main_state \<Rightarrow> bool" where
  "recording st \<longleftrightarrow>
     loop st = Ticking \<and> record_flag (obj st) \<and>
     (end_time (obj st) < 0 \<or> tick_time st \<le> end_time (obj st))"

definition stopped :: "main_state \<Rightarrow> bool" where
  "stopped st \<longleftrightarrow> alive st \<and> \<not> record_flag (obj st) \<and> 0 \<le> end_time (obj st)"

section \<open>Properties of the frame buffer\<close>

subsection \<open>Evaluating the Python primitives\<close>

lemma py_getitem_last: "xs \<noteq> [] \<Longrightarrow> py_getitem xs (- 1) = Inr (last xs)"
  by (simp add: py_getitem_def Let_def last_conv_nth nat_diff_distrib' int_ops)

lemma py_slice_from_pred: "0 < n \<Longrightarrow> py_slice_from xs (int n - 1) = drop (n - 1) xs"
  by (auto simp add: py_slice_from_def py_clip_def min_def nat_diff_distrib' int_ops)

text \<open>
  \<open>get_latest\<close> in closed form: the \<open>IndexError\<close> branch of \<open>fs[-1]\<close> is dead, because
  the empty case has returned before.
\<close>

lemma get_latest_eq:
  "get_latest t ro self =
     (let fs = filter (\<lambda>x. fst x \<le> t) (frames self) in
      if fs = [] then Inr (None, self)
      else Inr (Some (snd (last fs)),
                if ro then self\<lparr>frames := drop (length fs - 1) (frames self)\<rparr> else self))"
  by (simp add: get_latest_def Let_def py_getitem_last py_slice_from_pred)

lemma frames_appends: "frames (appends xs self) = frames self @ xs"
  unfolding appends_def
  by (induction xs arbitrary: self) (simp_all add: callback_image_def)

lemma filter_drop_keeps_last:
  assumes "filter P xs \<noteq> []"
  shows "filter P (drop (length (filter P xs) - 1) xs) \<noteq> [] \<and>
         last (filter P (drop (length (filter P xs) - 1) xs)) = last (filter P xs)"
proof -
  let ?k = "length (filter P xs)"
  let ?A = "filter P (take (?k - 1) xs)"
  let ?B = "filter P (drop (?k - 1) xs)"
  have split: "filter P xs = ?A @ ?B"
    by (metis append_take_drop_id filter_append)
  have "length ?A \<le> ?k - 1"
    by (metis length_filter_le length_take min.cobounded2 le_trans)
  moreover have "0 < ?k" using assms by simp
  moreover have "?k = length ?A + length ?B" using split by (metis length_append)
  ultimately have "?B \<noteq> []" by auto
  then show ?thesis using split by (metis last_appendR)
qed

lemma sorted_filter_takeWhile:
  "sorted (map fst xs) \<Longrightarrow> filter (\<lambda>x. fst x \<le> t) xs = takeWhile (\<lambda>x. fst x \<le> (t::'t::linorder)) xs"
proof (induction xs)
  case Nil
  then show ?case by simp
next
  case (Cons x xs)
  show ?case
  proof (cases "fst x \<le> t")
    case True
    with Cons show ?thesis by simp
  next
    case False
    from Cons.prems have "\<forall>y\<in>set xs. fst x \<le> fst y" by simp
    with False have "\<forall>y\<in>set xs. \<not> fst y \<le> t" by auto
    then have "filter (\<lambda>x. fst x \<le> t) xs = []" by (simp add: filter_empty_conv)
    with False show ?thesis by simp
  qed
qed

lemma sorted_dropWhile_gt:
  "sorted (map fst xs) \<Longrightarrow> \<forall>y\<in>set (dropWhile (\<lambda>x. fst x \<le> (t::'t::linorder)) xs). t < fst y"
proof (induction xs)
  case Nil
  then show ?case by simp
next
  case (Cons x xs)
  then show ?case by (auto simp: not_le) 
qed


subsection \<open>Timestamp order\<close>

lemma sorted_le_last: "sorted ys \<Longrightarrow> y \<in> set ys \<Longrightarrow> y \<le> last ys"
  by (induction ys) (auto)

lemma sorted_get_latest:
  assumes "sorted (map fst (frames self))" and "get_latest t ro self = Inr (r, self')"
  shows "sorted (map fst (frames self'))"
  using assms
  by (auto simp: get_latest_eq Let_def drop_map[symmetric] split: if_splits)

lemma sorted_callback_image:
  assumes "sorted (map fst (frames self))" and "\<forall>x\<in>set (frames self). fst x \<le> now"
  shows "sorted (map fst (frames (callback_image now converted self)))"
  using assms
  by (cases converted) (auto simp: callback_image_def sorted_append)

text \<open>
  The trimmed buffer of a buffer in arrival order: the returned frame, then the frames
  later than the query time.
\<close>

lemma sorted_trim_shape:
  fixes t :: "'t::linorder"
  assumes srt: "sorted (map fst (frames self))"
    and ret: "get_latest t True self = Inr (Some F, self')"
  shows "\<exists>tsF. frames self' = (tsF, F) # dropWhile (\<lambda>x. fst x \<le> t) (frames self) \<and> tsF \<le> t"
proof -
  let ?P = "\<lambda>x. fst x \<le> t"
  let ?fs = "filter ?P (frames self)"
  let ?tw = "takeWhile ?P (frames self)"
  let ?dw = "dropWhile ?P (frames self)"
  have fs_tw: "?fs = ?tw" using srt by (rule sorted_filter_takeWhile)
  from ret have ne: "?fs \<noteq> []" and F: "F = snd (last ?fs)"
    and fr': "frames self' = drop (length ?fs - 1) (frames self)"
    by (auto simp: get_latest_eq Let_def split: if_splits)
  have "drop (length ?tw - 1) (frames self) = drop (length ?tw - 1) (?tw @ ?dw)"
    by simp
  also have "\<dots> = drop (length ?tw - 1) ?tw @ ?dw"
    by (simp del: takeWhile_dropWhile_id)
  also have "drop (length ?tw - 1) ?tw = [last ?tw]"
    using ne fs_tw by (metis append_butlast_last_id append_eq_conv_conj length_butlast)
  finally have shape: "frames self' = last ?fs # ?dw"
    using fr' fs_tw by simp
  have "last ?fs \<in> set ?fs" using ne by (rule last_in_set)
  then have le: "fst (last ?fs) \<le> t" by simp
  from shape le F show ?thesis
    by (metis prod.collapse)
qed

text \<open>
  Claim C1. After any sequence of appends with non-decreasing timestamps to a new buffer,
  \<open>get_latest t\<close> does not raise; it returns \<open>None\<close> exactly when no stored frame has a
  timestamp at or before \<open>t\<close>, and otherwise the image of a stored frame whose timestamp
  is at or before \<open>t\<close> and is the greatest such timestamp.
\<close>

theorem get_latest_greatest_at_or_before:
  fixes t :: "'t::linorder"
  assumes "sorted (map fst xs)"
  shows "\<exists>r self'. get_latest t ro (appends xs (VideoFrames_init tx ty tw th)) = Inr (r, self') \<and>
           (case r of
              None \<Rightarrow> \<not> (\<exists>x\<in>set xs. fst x \<le> t)
            | Some img \<Rightarrow>
                \<exists>ts. (ts, img) \<in> set xs \<and> ts \<le> t \<and> (\<forall>x\<in>set xs. fst x \<le> t \<longrightarrow> fst x \<le> ts))"
proof -
  let ?self = "appends xs (VideoFrames_init tx ty tw th)"
  let ?fs = "filter (\<lambda>x. fst x \<le> t) xs"
  have fr: "frames ?self = xs"
    by (simp add: frames_appends VideoFrames_init_def)
  show ?thesis
  proof (cases "?fs = []")
    case True
    then have "\<not> (\<exists>x\<in>set xs. fst x \<le> t)"
      by (simp add: filter_empty_conv)
    with True fr show ?thesis
      by (simp add: get_latest_eq)
  next
    case False
    then have mem: "last ?fs \<in> set ?fs" by (rule last_in_set)
    then have in_xs: "(fst (last ?fs), snd (last ?fs)) \<in> set xs" and le: "fst (last ?fs) \<le> t"
      by simp_all
    have "sorted (map fst ?fs)"
      using assms by (simp add: sorted_filter)
    then have "\<forall>x\<in>set ?fs. fst x \<le> fst (last ?fs)"
      using False sorted_le_last [of "map fst ?fs"] by (simp add: last_map)
    then have "\<forall>x\<in>set xs. fst x \<le> t \<longrightarrow> fst x \<le> fst (last ?fs)"
      by force
    then have best: "\<exists>ts. (ts, snd (last ?fs)) \<in> set xs \<and> ts \<le> t \<and>
        (\<forall>x\<in>set xs. fst x \<le> t \<longrightarrow> fst x \<le> ts)"
      using in_xs le by blast
    have "\<exists>self'. get_latest t ro ?self = Inr (Some (snd (last ?fs)), self')"
      using False fr by (simp add: get_latest_eq Let_def)
    with best show ?thesis by force
  qed
qed

text \<open>
  Claim C9. On every buffer \<open>get_latest\<close> returns without raising; when no stored frame
  has a timestamp at or before \<open>t\<close> it returns \<open>None\<close> and the buffer is the one it was
  given, whatever \<open>remove_older\<close> is.
\<close>

theorem get_latest_none_unchanged:
  "(\<exists>r. get_latest t ro self = Inr r) \<and>
   ((\<forall>x\<in>set (frames self). \<not> fst x \<le> t) \<longrightarrow> get_latest t ro self = Inr (None, self))"
  by (simp add: get_latest_eq Let_def filter_empty_conv)

text \<open>
  Claim C6, as amended. On a buffer whose timestamps are in non-decreasing order, after
  \<open>get_latest t\<close> with \<open>remove_older\<close> has returned the frame \<open>F\<close>, the buffer starts with
  \<open>F\<close>, every retained frame has a timestamp at or after \<open>F\<close>'s, and every frame behind
  the head is later than \<open>t\<close>: the head is the only retained frame that the query could
  have served. The order is kept by \<open>get_latest\<close> (\<open>sorted_get_latest\<close>) and by an append
  whose clock reading is not before the stored ones (\<open>sorted_callback_image\<close>).
\<close>

theorem get_latest_trim_invariant:
  fixes t :: "'t::linorder"
  assumes srt: "sorted (map fst (frames self))"
    and ret: "get_latest t True self = Inr (Some F, self')"
  shows "\<exists>tsF rest. frames self' = (tsF, F) # rest \<and> tsF \<le> t \<and>
           (\<forall>x\<in>set rest. t < fst x) \<and> (\<forall>x\<in>set (frames self'). tsF \<le> fst x)"
proof -
  let ?dw = "dropWhile (\<lambda>x. fst x \<le> t) (frames self)"
  from sorted_trim_shape [OF srt ret] obtain tsF where
    shape: "frames self' = (tsF, F) # ?dw" and le: "tsF \<le> t"
    by blast
  have gt: "\<forall>x\<in>set ?dw. t < fst x" using srt by (rule sorted_dropWhile_gt)
  with le have "\<forall>x\<in>set (frames self'). tsF \<le> fst x"
    using shape by auto
  with shape le gt show ?thesis
    by blast
qed

text \<open>
  Claim C2, as amended. After \<open>get_latest t\<close> with \<open>remove_older\<close> has returned \<open>F\<close>, the
  frame \<open>F\<close> is still in the buffer, and it is the head of the buffer when the stored
  timestamps are in non-decreasing order. A query at \<open>t' \<ge> t\<close> on the trimmed buffer
  returns a frame, never \<open>None\<close>; it returns \<open>F\<close> again when no retained frame has a
  timestamp in the interval \<open>(t, t']\<close>. All but the head position hold on every buffer,
  in order or not.
\<close>

theorem get_latest_requery:
  fixes t :: "'t::linorder"
  assumes ret: "get_latest t True self = Inr (Some F, self')" and later: "t \<le> t'"
  shows "(\<exists>ts. (ts, F) \<in> set (frames self') \<and> ts \<le> t) \<and>
         (sorted (map fst (frames self)) \<longrightarrow> (\<exists>ts rest. frames self' = (ts, F) # rest)) \<and>
         (\<exists>G self''. get_latest t' ro self' = Inr (Some G, self'')) \<and>
         ((\<forall>x\<in>set (frames self'). \<not> (t < fst x \<and> fst x \<le> t')) \<longrightarrow>
            (\<exists>self''. get_latest t' ro self' = Inr (Some F, self'')))"
proof -
  let ?P = "\<lambda>x. fst x \<le> t"
  let ?Q = "\<lambda>x. fst x \<le> t'"
  let ?fs = "filter ?P (frames self)"
  from ret have ne: "?fs \<noteq> []" and F: "F = snd (last ?fs)"
    and fr': "frames self' = drop (length ?fs - 1) (frames self)"
    by (auto simp: get_latest_eq Let_def split: if_splits)
  from filter_drop_keeps_last [OF ne]
  have kept: "filter ?P (frames self') \<noteq> []"
    and last_kept: "last (filter ?P (frames self')) = last ?fs"
    using fr' by simp_all
  from kept have "last (filter ?P (frames self')) \<in> set (filter ?P (frames self'))"
    by (rule last_in_set)
  with last_kept have "last ?fs \<in> set (frames self')" "fst (last ?fs) \<le> t"
    by simp_all
  with F have retained: "\<exists>ts. (ts, F) \<in> set (frames self') \<and> ts \<le> t"
    by (metis prod.collapse)
  have head: "\<exists>ts rest. frames self' = (ts, F) # rest"
    if srt: "sorted (map fst (frames self))"
    using sorted_trim_shape [OF srt ret] by blast
  from kept obtain x where "x \<in> set (frames self')" "fst x \<le> t"
    by (auto simp: filter_empty_conv)
  with later have "filter ?Q (frames self') \<noteq> []"
    by (auto simp: filter_empty_conv intro: order_trans)
  then have some: "\<exists>G self''. get_latest t' ro self' = Inr (Some G, self'')"
    by (simp add: get_latest_eq Let_def)
  have same: "\<exists>self''. get_latest t' ro self' = Inr (Some F, self'')"
    if gap: "\<forall>x\<in>set (frames self'). \<not> (t < fst x \<and> fst x \<le> t')"
  proof -
    have "filter ?Q (frames self') = filter ?P (frames self')"
      using gap later by (intro filter_cong) auto
    with kept last_kept F show ?thesis
      by (simp add: get_latest_eq Let_def)
  qed
  from retained head some same show ?thesis by blast
qed

subsection \<open>Concrete runs of the buffer\<close>

lemmas buffer_eval =
  get_latest_def py_getitem_def py_slice_from_def py_clip_def appends_def callback_image_def
  VideoFrames_init_def Let_def

theorem get_latest_greatest_at_or_before_witness:
  "sorted (map fst [(1::real, ''a''), (3, ''b''), (5, ''c'')]) \<and>
   get_latest 4 True (appends [(1::real, ''a''), (3, ''b''), (5, ''c'')] (VideoFrames_init 0 0 2 2))
     = Inr (Some ''b'',
            \<lparr>frames = [(3, ''b''), (5, ''c'')],
             target_x = 0, target_y = 0, target_w = 2, target_h = 2\<rparr>)"
  using get_latest_greatest_at_or_before
    [of "[(1::real, ''a''), (3, ''b''), (5, ''c'')]" 4 True 0 0 2 2]
  by (simp add: buffer_eval)

theorem get_latest_none_unchanged_witness:
  "get_latest (4::real) True
     \<lparr>frames = [(5, ''c'')], target_x = 0, target_y = 0, target_w = 2, target_h = 2\<rparr>
   = Inr (None,
          \<lparr>frames = [(5, ''c'')], target_x = 0, target_y = 0, target_w = 2, target_h = 2\<rparr>)"
  using get_latest_none_unchanged
    [of 4 True "\<lparr>frames = [(5::real, ''c'')], target_x = 0, target_y = 0, target_w = 2, target_h = 2\<rparr>"]
  by simp

theorem get_latest_trim_invariant_witness:
  "sorted (map fst [(1::real, ''a''), (3, ''b''), (5, ''c'')]) \<and>
   get_latest 4 True
     \<lparr>frames = [(1::real, ''a''), (3, ''b''), (5, ''c'')],
      target_x = 0, target_y = 0, target_w = 2, target_h = 2\<rparr>
   = Inr (Some ''b'',
          \<lparr>frames = (3, ''b'') # [(5, ''c'')],
           target_x = 0, target_y = 0, target_w = 2, target_h = 2\<rparr>) \<and>
   (3::real) \<le> 4 \<and> (4::real) < 5"
  using get_latest_trim_invariant
    [of "\<lparr>frames = [(1::real, ''a''), (3, ''b''), (5, ''c'')],
          target_x = 0, target_y = 0, target_w = 2, target_h = 2\<rparr>" 4 "''b''"
        "\<lparr>frames = [(3::real, ''b''), (5, ''c'')],
          target_x = 0, target_y = 0, target_w = 2, target_h = 2\<rparr>"]
  by (simp add: buffer_eval)

theorem get_latest_requery_witness:
  "get_latest 4 True
     \<lparr>frames = [(1::real, ''a''), (3, ''b''), (9, ''c'')],
      target_x = 0, target_y = 0, target_w = 2, target_h = 2\<rparr>
   = Inr (Some ''b'',
          \<lparr>frames = [(3, ''b''), (9, ''c'')],
           target_x = 0, target_y = 0, target_w = 2, target_h = 2\<rparr>) \<and>
   (4::real) \<le> 6 \<and>
   get_latest 6 True
     \<lparr>frames = [(3::real, ''b''), (9, ''c'')],
      target_x = 0, target_y = 0, target_w = 2, target_h = 2\<rparr>
   = Inr (Some ''b'',
          \<lparr>frames = [(3, ''b''), (9, ''c'')],
           target_x = 0, target_y = 0, target_w = 2, target_h = 2\<rparr>)"
  using get_latest_requery
    [of 4 "\<lparr>frames = [(1::real, ''a''), (3, ''b''), (9, ''c'')],
          target_x = 0, target_y = 0, target_w = 2, target_h = 2\<rparr>" "''b''"
        "\<lparr>frames = [(3::real, ''b''), (9, ''c'')],
          target_x = 0, target_y = 0, target_w = 2, target_h = 2\<rparr>" 6 True]
  by (simp add: buffer_eval)

text \<open>
  Claim C6 as stated fails on a buffer that is not in timestamp order, which the code
  builds when the wall clock steps back between two arrivals: the query at 4 returns
  \<open>c\<close>, stamped 3, and keeps before it the frame \<open>b\<close>, stamped 1.
\<close>

theorem get_latest_trim_invariant_counterexample:
  "callback_image 3 (Some ''c'')
     (callback_image 1 (Some ''b'')
       (callback_image (5::real) (Some ''a'') (VideoFrames_init 0 0 2 2)))
   = \<lparr>frames = [(5, ''a''), (1, ''b''), (3, ''c'')],
      target_x = 0, target_y = 0, target_w = 2, target_h = 2\<rparr> \<and>
   get_latest 4 True
     \<lparr>frames = [(5::real, ''a''), (1, ''b''), (3, ''c'')],
      target_x = 0, target_y = 0, target_w = 2, target_h = 2\<rparr>
   = Inr (Some ''c'',
          \<lparr>frames = [(1, ''b''), (3, ''c'')],
           target_x = 0, target_y = 0, target_w = 2, target_h = 2\<rparr>) \<and>
   (1::real) < 3"
  by (simp add: buffer_eval)

text \<open>
  Claim C2 as stated fails when the buffer already holds a frame newer than \<open>t\<close>: the
  query at 2 returns \<open>a\<close> and keeps both frames, and the later query at 6, with no
  append in between, returns \<open>b\<close>.
\<close>

theorem get_latest_requery_counterexample:
  "get_latest 2 True
     \<lparr>frames = [(1::real, ''a''), (5, ''b'')],
      target_x = 0, target_y = 0, target_w = 2, target_h = 2\<rparr>
   = Inr (Some ''a'',
          \<lparr>frames = [(1, ''a''), (5, ''b'')],
           target_x = 0, target_y = 0, target_w = 2, target_h = 2\<rparr>) \<and>
   (2::real) \<le> 6 \<and>
   get_latest 6 True
     \<lparr>frames = [(1::real, ''a''), (5, ''b'')],
      target_x = 0, target_y = 0, target_w = 2, target_h = 2\<rparr>
   = Inr (Some ''b'',
          \<lparr>frames = [(5, ''b'')],
           target_x = 0, target_y = 0, target_w = 2, target_h = 2\<rparr>) \<and>
   ''b'' \<noteq> ''a''"
  by (simp add: buffer_eval)




section \<open>Properties of the composition\<close>

subsection \<open>The array operations\<close>

lemma np_zeros_Inr:
  assumes "np_zeros lib h w = Inr a"
  shows "nrows a = nat h" "ncols a = nat w" "well_shaped a" "0 \<le> h" "0 \<le> w"
    "pix a = replicate (nat h) (replicate (nat w) (0, 0, 0))"
  using assms
  by (auto simp: np_zeros_def well_shaped_def list_all_iff split: if_splits option.splits)

lemma np_zeros_pixel:
  "np_zeros lib h w = Inr a \<Longrightarrow> r < nrows a \<Longrightarrow> c < ncols a \<Longrightarrow> pix a ! r ! c = (0, 0, 0)"
  by (auto simp: np_zeros_def split: if_splits option.splits)

lemma cv2_resize_Inr:
  assumes "cv2_resize lib src (w, h) = Inr a"
  shows "nrows a = nat h" "ncols a = nat w" "well_shaped a" "0 < h" "0 < w"
  using assms
  by (auto simp: cv2_resize_def Let_def well_shaped_def list_all_iff
      split: if_splits option.splits)

text \<open>A target size that OpenCV can hold and create.\<close>

lemma cv2_resize_succeeds:
  "0 < nrows src \<Longrightarrow> 0 < ncols src \<Longrightarrow> 0 < w \<Longrightarrow> 0 < h \<Longrightarrow>
   w \<le> INT_MAX \<Longrightarrow> h \<le> INT_MAX \<Longrightarrow> cv_create lib (nat h) (nat w) = None \<Longrightarrow>
   \<exists>a. cv2_resize lib src (w, h) = Inr a"
  by (simp add: cv2_resize_def Let_def)

text \<open>A size beyond a C \<open>int\<close> is refused on every machine.\<close>

lemma cv2_resize_too_large:
  "INT_MAX < w \<or> INT_MAX < h \<Longrightarrow> cv2_resize lib src (w, h) = Inl Cv2Error"
  by (auto simp: cv2_resize_def Let_def)

lemma setitem_slice_shape:
  assumes "setitem_slice canvas y0 y1 x0 x1 val = Inr canvas'"
  shows "nrows canvas' = nrows canvas" "ncols canvas' = ncols canvas" "well_shaped canvas'"
  using assms
  by (auto simp: setitem_slice_def Let_def well_shaped_def list_all_iff
      split: if_splits prod.splits)

lemma setitem_slice_pixel:
  assumes "setitem_slice canvas y0 y1 x0 x1 val = Inr canvas'"
    and "r < nrows canvas" and "c < ncols canvas"
  shows "pix canvas' ! r ! c =
     (let (rs, re) = slice_range y0 y1 (nrows canvas);
          (cs, ce) = slice_range x0 x1 (ncols canvas)
      in if rs \<le> r \<and> r < re \<and> cs \<le> c \<and> c < ce
         then pix val ! (if nrows val = 1 then 0 else r - rs)
                      ! (if ncols val = 1 then 0 else c - cs)
         else pix canvas ! r ! c)"
  using assms
  by (auto simp: setitem_slice_def Let_def split: if_splits prod.splits)

lemma slice_range_inside:
  "0 \<le> a \<Longrightarrow> 0 \<le> d \<Longrightarrow> a + d \<le> int n \<Longrightarrow> slice_range a (a + d) n = (nat a, nat a + nat d)"
  by (auto simp: slice_range_def py_clip_def max_def min_def nat_add_distrib)


subsection \<open>One wrapper, then the loop\<close>

lemma has_frame_filter: "has_frame t frame_w \<longleftrightarrow> filter (\<lambda>x. fst x \<le> t) (frames frame_w) \<noteq> []"
  by (simp add: has_frame_def list_ex_iff filter_empty_conv)

lemma draw_frame_no_frame:
  "\<not> has_frame t frame_w \<Longrightarrow> draw_frame lib t frame_w canvas = Inr (frame_w, canvas)"
  by (simp add: draw_frame_def get_latest_eq has_frame_filter)

lemma draw_frame_shape:
  assumes "draw_frame lib t frame_w canvas = Inr (frame_w', canvas')"
  shows "nrows canvas' = nrows canvas" "ncols canvas' = ncols canvas"
    "well_shaped canvas \<Longrightarrow> well_shaped canvas'"
  using assms
  by (auto simp: draw_frame_def setitem_slice_shape
      split: sum.splits option.splits prod.splits)

lemma draw_frame_pixel:
  assumes "draw_frame lib t frame_w canvas = Inr (frame_w', canvas')"
    and "r < nrows canvas" and "c < ncols canvas"
    and "\<not> (has_frame t frame_w \<and> covers (nrows canvas) (ncols canvas) frame_w r c)"
  shows "pix canvas' ! r ! c = pix canvas ! r ! c"
proof (cases "has_frame t frame_w")
  case False
  with assms(1) show ?thesis by (simp add: draw_frame_no_frame)
next
  case True
  with assms(4) have out: "\<not> covers (nrows canvas) (ncols canvas) frame_w r c" by simp
  from assms(1) True obtain resized where
    "setitem_slice canvas (target_y frame_w) (target_y frame_w + target_h frame_w)
       (target_x frame_w) (target_x frame_w + target_w frame_w) resized = Inr canvas'"
    by (auto simp: draw_frame_def get_latest_eq has_frame_filter Let_def
        split: sum.splits option.splits prod.splits if_splits)
  from setitem_slice_pixel [OF this assms(2,3)] out show ?thesis
    by (auto simp: covers_def Let_def split: prod.splits if_splits)
qed

lemma draw_frame_succeeds:
  assumes "has_frame t frame_w \<longrightarrow>
      drawable lib (int (nrows canvas)) (int (ncols canvas)) frame_w"
  shows "\<exists>frame_w' canvas'. draw_frame lib t frame_w canvas = Inr (frame_w', canvas')"
proof (cases "has_frame t frame_w")
  case False
  then show ?thesis by (simp add: draw_frame_no_frame)
next
  case True
  let ?fs = "filter (\<lambda>x. fst x \<le> t) (frames frame_w)"
  from True have ne: "?fs \<noteq> []" by (simp add: has_frame_filter)
  then have "last ?fs \<in> set ?fs" by (rule last_in_set)
  then have "last ?fs \<in> set (frames frame_w)" by simp
  with True assms have img: "0 < nrows (snd (last ?fs))" "0 < ncols (snd (last ?fs))"
    by (auto simp: drawable_def list_all_iff)
  from True assms have ok: "region_ok (int (nrows canvas)) (int (ncols canvas)) frame_w"
    and fits: "target_w frame_w \<le> INT_MAX" "target_h frame_w \<le> INT_MAX"
      "cv_create lib (nat (target_h frame_w)) (nat (target_w frame_w)) = None"
    by (simp_all add: drawable_def)
  from ok have pos: "0 < target_w frame_w" "0 < target_h frame_w"
    by (simp_all add: region_ok_def)
  from cv2_resize_succeeds [OF img pos fits] obtain resized where
    rz: "cv2_resize lib (snd (last ?fs)) (target_w frame_w, target_h frame_w) = Inr resized"
    by blast
  have sh: "nrows resized = nat (target_h frame_w)" "ncols resized = nat (target_w frame_w)"
    using cv2_resize_Inr [OF rz] by simp_all
  have rows: "slice_range (target_y frame_w) (target_y frame_w + target_h frame_w) (nrows canvas)
      = (nat (target_y frame_w), nat (target_y frame_w) + nat (target_h frame_w))"
    using ok by (intro slice_range_inside) (simp_all add: region_ok_def)
  have cols: "slice_range (target_x frame_w) (target_x frame_w + target_w frame_w) (ncols canvas)
      = (nat (target_x frame_w), nat (target_x frame_w) + nat (target_w frame_w))"
    using ok by (intro slice_range_inside) (simp_all add: region_ok_def)
  have "\<exists>canvas'. setitem_slice canvas (target_y frame_w) (target_y frame_w + target_h frame_w)
       (target_x frame_w) (target_x frame_w + target_w frame_w) resized = Inr canvas'"
    by (simp add: setitem_slice_def rows cols sh)
  with ne rz show ?thesis
    by (auto simp: draw_frame_def get_latest_eq Let_def)
qed

lemma draw_frames_shape:
  "draw_frames lib t fws canvas = Inr (fws', canvas') \<Longrightarrow>
   nrows canvas' = nrows canvas \<and> ncols canvas' = ncols canvas \<and>
   (well_shaped canvas \<longrightarrow> well_shaped canvas')"
proof (induction fws arbitrary: canvas fws')
  case Nil
  then show ?case by simp
next
  case (Cons frame_w rest)
  from Cons.prems obtain frame_w' canvas1 rest' where
    one: "draw_frame lib t frame_w canvas = Inr (frame_w', canvas1)"
    and more: "draw_frames lib t rest canvas1 = Inr (rest', canvas')"
    by (auto split: sum.splits prod.splits)
  from Cons.IH [OF more] draw_frame_shape [OF one] show ?case by simp
qed

lemma draw_frames_pixel:
  "draw_frames lib t fws canvas = Inr (fws', canvas') \<Longrightarrow>
   r < nrows canvas \<Longrightarrow> c < ncols canvas \<Longrightarrow>
   \<forall>g\<in>set fws. \<not> (has_frame t g \<and> covers (nrows canvas) (ncols canvas) g r c) \<Longrightarrow>
   pix canvas' ! r ! c = pix canvas ! r ! c"
proof (induction fws arbitrary: canvas fws')
  case Nil
  then show ?case by simp
next
  case (Cons frame_w rest)
  from Cons.prems(1) obtain frame_w' canvas1 rest' where
    one: "draw_frame lib t frame_w canvas = Inr (frame_w', canvas1)"
    and more: "draw_frames lib t rest canvas1 = Inr (rest', canvas')"
    by (auto split: sum.splits prod.splits)
  have sh: "nrows canvas1 = nrows canvas" "ncols canvas1 = ncols canvas"
    using draw_frame_shape [OF one] by simp_all
  have "pix canvas' ! r ! c = pix canvas1 ! r ! c"
    using Cons.IH [OF more] Cons.prems(2-4) sh by simp
  also have "\<dots> = pix canvas ! r ! c"
    using draw_frame_pixel [OF one Cons.prems(2,3)] Cons.prems(4) by simp
  finally show ?case .
qed

lemma draw_frames_succeeds:
  "\<forall>g\<in>set fws. has_frame t g \<longrightarrow> drawable lib (int (nrows canvas)) (int (ncols canvas)) g \<Longrightarrow>
   \<exists>fws' canvas'. draw_frames lib t fws canvas = Inr (fws', canvas')"
proof (induction fws arbitrary: canvas)
  case Nil
  then show ?case by simp
next
  case (Cons frame_w rest)
  from Cons.prems draw_frame_succeeds [of t frame_w lib canvas] obtain frame_w' canvas1 where
    one: "draw_frame lib t frame_w canvas = Inr (frame_w', canvas1)"
    by auto
  have sh: "nrows canvas1 = nrows canvas" "ncols canvas1 = ncols canvas"
    using draw_frame_shape [OF one] by simp_all
  from Cons.IH [of canvas1] Cons.prems sh obtain rest' canvas' where
    "draw_frames lib t rest canvas1 = Inr (rest', canvas')"
    by auto
  with one show ?case by simp
qed


subsection \<open>The canvas of a tick\<close>

lemma compose_canvas_Inr:
  assumes "compose_canvas lib h w t fws = Inr (fws', canvas)"
  shows "nrows canvas = nat h" "ncols canvas = nat w" "well_shaped canvas"
    "r < nat h \<Longrightarrow> c < nat w \<Longrightarrow>
     \<forall>g\<in>set fws. \<not> (has_frame t g \<and> covers (nat h) (nat w) g r c) \<Longrightarrow>
     pix canvas ! r ! c = (0, 0, 0)"
proof -
  from assms obtain z where z: "np_zeros lib h w = Inr z"
    and d: "draw_frames lib t fws z = Inr (fws', canvas)"
    by (auto simp: compose_canvas_def split: sum.splits)
  note zs = np_zeros_Inr [OF z]
  from draw_frames_shape [OF d] zs
  show "nrows canvas = nat h" "ncols canvas = nat w" "well_shaped canvas"
    by simp_all
  assume "r < nat h" "c < nat w"
    "\<forall>g\<in>set fws. \<not> (has_frame t g \<and> covers (nat h) (nat w) g r c)"
  then have "pix canvas ! r ! c = pix z ! r ! c"
    using draw_frames_pixel [OF d, of r c] zs(1,2) by simp
  also have "\<dots> = (0, 0, 0)"
    using np_zeros_pixel [OF z, of r c] zs(1,2) \<open>r < nat h\<close> \<open>c < nat w\<close> by simp
  finally show "pix canvas ! r ! c = (0, 0, 0)" .
qed

text \<open>
  Claim C7, as amended. When the output size is not negative and numpy can create the
  canvas, and every wrapper that has a frame at the sample time is drawable (a region
  inside the canvas with offsets that are not negative and a positive size that OpenCV
  can hold and create, and no empty stored image), the composition returns a canvas.
  Under every configuration, whenever the composition returns a canvas rather than
  raising, the canvas has exactly \<open>height\<close> rows of \<open>width\<close> three-byte
  pixels, and every pixel that no wrapper with a frame covers is zero: the canvas
  starts from zeros in every tick and takes nothing from the tick before.
\<close>

theorem compose_canvas_shape:
  "(0 \<le> height \<and> 0 \<le> width \<and>
    np_create lib (nat height) (nat width) = None \<and>
    (\<forall>g\<in>set fws. has_frame t g \<longrightarrow> drawable lib height width g) \<longrightarrow>
    (\<exists>fws' canvas.
        compose_canvas lib height width t fws = Inr (fws', canvas))) \<and>
   (\<forall>fws' canvas.
      compose_canvas lib height width t fws = Inr (fws', canvas) \<longrightarrow>
      nrows canvas = nat height \<and> ncols canvas = nat width \<and>
      well_shaped canvas \<and>
      (\<forall>r c. r < nat height \<longrightarrow> c < nat width \<longrightarrow>
         (\<forall>g\<in>set fws.
            \<not> (has_frame t g \<and> covers (nat height) (nat width) g r c)) \<longrightarrow>
         pix canvas ! r ! c = (0, 0, 0)))"
proof (intro conjI impI)
  assume pre: "0 \<le> height \<and> 0 \<le> width \<and>
    np_create lib (nat height) (nat width) = None \<and>
    (\<forall>g\<in>set fws. has_frame t g \<longrightarrow> drawable lib height width g)"
  then obtain z where z: "np_zeros lib height width = Inr z"
    by (auto simp: np_zeros_def)
  from np_zeros_Inr [OF z] pre
  have "int (nrows z) = height" "int (ncols z) = width"
    by simp_all
  with pre draw_frames_succeeds [of fws t lib z]
  have "\<exists>fws' canvas. draw_frames lib t fws z = Inr (fws', canvas)"
    by simp
  with z show "\<exists>fws' canvas. compose_canvas lib height width t fws = Inr (fws', canvas)"
    by (simp add: compose_canvas_def)
next
  show "\<forall>fws' canvas. compose_canvas lib height width t fws = Inr (fws', canvas) \<longrightarrow>
       nrows canvas = nat height \<and> ncols canvas = nat width \<and>
       well_shaped canvas \<and>
       (\<forall>r c. r < nat height \<longrightarrow> c < nat width \<longrightarrow>
          (\<forall>g\<in>set fws. \<not> (has_frame t g \<and> covers (nat height) (nat width) g r c)) \<longrightarrow>
          pix canvas ! r ! c = (0, 0, 0))"
    using compose_canvas_Inr [of lib height width t fws] by blast
qed

text \<open>
  Claim C8, as amended. Processing a wrapper that has no frame at the sample time is
  not an error and returns the canvas and the buffer it was given, so no pixel changes,
  inside or outside its rectangle. In the canvas of the tick, a pixel of its rectangle
  is zero when no wrapper that has a frame covers that pixel.
\<close>

theorem missing_frame_leaves_canvas:
  assumes none: "\<not> has_frame t frame_w"
  shows "draw_frame lib t frame_w canvas = Inr (frame_w, canvas) \<and>
    (\<forall>fws fws' result r c.
       compose_canvas lib h w t fws = Inr (fws', result) \<longrightarrow>
       r < nat h \<longrightarrow> c < nat w \<longrightarrow> covers (nat h) (nat w) frame_w r c \<longrightarrow>
       (\<forall>g\<in>set fws. \<not> (has_frame t g \<and> covers (nat h) (nat w) g r c)) \<longrightarrow>
       pix result ! r ! c = (0, 0, 0))"
  using none compose_canvas_Inr(4) [of lib h w t]
  by (simp add: draw_frame_no_frame)

text \<open>
  Claim C10, as amended. For a region with offsets that are not negative, a positive
  size and \<open>x + w\<close>, \<open>y + h\<close> within the canvas, the write of the resized frame
  succeeds: the rectangle the slices select starts at \<open>(y, x)\<close>, has exactly the shape
  of the resized image and lies inside the canvas; after the write the rectangle holds
  the resized pixels and every other pixel is as before.
\<close>

theorem region_write_in_bounds:
  assumes ok: "region_ok (int (nrows canvas)) (int (ncols canvas)) frame_w"
    and rz: "cv2_resize lib f (target_w frame_w, target_h frame_w) = Inr resized"
  shows "\<exists>canvas'.
     setitem_slice canvas (target_y frame_w) (target_y frame_w + target_h frame_w)
       (target_x frame_w) (target_x frame_w + target_w frame_w) resized = Inr canvas' \<and>
     nrows canvas' = nrows canvas \<and> ncols canvas' = ncols canvas \<and>
     slice_range (target_y frame_w) (target_y frame_w + target_h frame_w) (nrows canvas)
       = (nat (target_y frame_w), nat (target_y frame_w) + nrows resized) \<and>
     slice_range (target_x frame_w) (target_x frame_w + target_w frame_w) (ncols canvas)
       = (nat (target_x frame_w), nat (target_x frame_w) + ncols resized) \<and>
     nat (target_y frame_w) + nrows resized \<le> nrows canvas \<and>
     nat (target_x frame_w) + ncols resized \<le> ncols canvas \<and>
     (\<forall>r c. r < nrows canvas \<longrightarrow> c < ncols canvas \<longrightarrow>
        pix canvas' ! r ! c =
          (if nat (target_y frame_w) \<le> r \<and> r < nat (target_y frame_w) + nrows resized \<and>
              nat (target_x frame_w) \<le> c \<and> c < nat (target_x frame_w) + ncols resized
           then pix resized ! (r - nat (target_y frame_w)) ! (c - nat (target_x frame_w))
           else pix canvas ! r ! c))"
proof -
  let ?y = "target_y frame_w" and ?x = "target_x frame_w"
  let ?h = "target_h frame_w" and ?w = "target_w frame_w"
  have sh: "nrows resized = nat ?h" "ncols resized = nat ?w"
    using cv2_resize_Inr [OF rz] by simp_all
  have rows: "slice_range ?y (?y + ?h) (nrows canvas) = (nat ?y, nat ?y + nat ?h)"
    using ok by (intro slice_range_inside) (simp_all add: region_ok_def)
  have cols: "slice_range ?x (?x + ?w) (ncols canvas) = (nat ?x, nat ?x + nat ?w)"
    using ok by (intro slice_range_inside) (simp_all add: region_ok_def)
  have inside: "nat ?y + nat ?h \<le> nrows canvas" "nat ?x + nat ?w \<le> ncols canvas"
    using ok by (simp_all add: region_ok_def) linarith+
  obtain canvas' where
    w: "setitem_slice canvas ?y (?y + ?h) ?x (?x + ?w) resized = Inr canvas'"
    by (simp add: setitem_slice_def rows cols sh)
  have px: "pix canvas' ! r ! c =
          (if nat ?y \<le> r \<and> r < nat ?y + nrows resized \<and> nat ?x \<le> c \<and> c < nat ?x + ncols resized
           then pix resized ! (r - nat ?y) ! (c - nat ?x)
           else pix canvas ! r ! c)"
    if "r < nrows canvas" "c < ncols canvas" for r c
    using setitem_slice_pixel [OF w that] by (auto simp: rows cols sh)
  from w setitem_slice_shape(1,2) [OF w] rows cols inside px sh show ?thesis
    by simp
qed


subsection \<open>Concrete compositions\<close>

lemmas canvas_eval =
  compose_canvas_def draw_frame_def np_zeros_def cv2_resize_def nearest_def setitem_slice_def
  slice_range_def has_frame_def covers_def region_ok_def small_machine_def INT_MAX_def
  numeral_2_eq_2

text \<open>
  Claim C7 as stated fails for a region that leaves the canvas: on a 2 by 2 canvas the
  wrapper at \<open>x = 1\<close> of width 2 has a frame, the slice selects one column, the resized
  image has two, and the tick raises \<open>ValueError\<close> instead of producing a canvas.
\<close>

theorem compose_canvas_shape_counterexample:
  "compose_canvas small_machine 2 2 (1::real)
     [\<lparr>frames = [(0, \<lparr>nrows = 1, ncols = 1, pix = [[(255, 255, 255)]]\<rparr>)],
       target_x = 1, target_y = 0, target_w = 2, target_h = 1\<rparr>]
   = Inl ValueError"
  by (simp add: canvas_eval buffer_eval)

theorem compose_canvas_shape_witness:
  "compose_canvas small_machine 2 2 (1::real)
     [\<lparr>frames = [(0, \<lparr>nrows = 1, ncols = 1, pix = [[(255, 255, 255)]]\<rparr>)],
       target_x = 1, target_y = 0, target_w = 1, target_h = 2\<rparr>,
      \<lparr>frames = [], target_x = 5, target_y = 5, target_w = 3, target_h = 3\<rparr>]
   = Inr ([\<lparr>frames = [(0, \<lparr>nrows = 1, ncols = 1, pix = [[(255, 255, 255)]]\<rparr>)],
            target_x = 1, target_y = 0, target_w = 1, target_h = 2\<rparr>,
           \<lparr>frames = [], target_x = 5, target_y = 5, target_w = 3, target_h = 3\<rparr>],
          \<lparr>nrows = 2, ncols = 2,
           pix = [[(0, 0, 0), (255, 255, 255)], [(0, 0, 0), (255, 255, 255)]]\<rparr>)"
proof -
  let ?a = "\<lparr>frames = [(0::real, \<lparr>nrows = 1, ncols = 1, pix = [[(255, 255, 255)]]\<rparr>)],
       target_x = 1, target_y = 0, target_w = 1, target_h = 2\<rparr>"
  let ?b = "\<lparr>frames = [] :: (real \<times> ndarray) list,
       target_x = 5, target_y = 5, target_w = 3, target_h = 3\<rparr>"
  have pre: "(0::int) \<le> 2 \<and> (0::int) \<le> 2 \<and> np_create small_machine (nat 2) (nat 2) = None \<and>
      (\<forall>g\<in>set [?a, ?b]. has_frame 1 g \<longrightarrow> drawable small_machine 2 2 g)"
    by (simp add: has_frame_def region_ok_def drawable_def small_machine_def INT_MAX_def)
  have run: "compose_canvas small_machine 2 2 (1::real) [?a, ?b] =
      Inr ([?a, ?b],
           \<lparr>nrows = 2, ncols = 2,
            pix = [[(0, 0, 0), (255, 255, 255)], [(0, 0, 0), (255, 255, 255)]]\<rparr>)"
    by (simp add: canvas_eval buffer_eval)
  from compose_canvas_shape [of 2 2 small_machine "[?a, ?b]" 1] pre run
  show ?thesis
    by simp
qed

text \<open>
  Claim C8 as stated fails when regions overlap: the second wrapper has no frame and
  covers the pixel \<open>(0, 0)\<close>, which the first wrapper has painted white.
\<close>

theorem missing_frame_leaves_canvas_counterexample:
  "\<not> has_frame (1::real)
       \<lparr>frames = [] :: (real \<times> ndarray) list,
        target_x = 0, target_y = 0, target_w = 1, target_h = 1\<rparr> \<and>
   covers 1 1
       \<lparr>frames = [] :: (real \<times> ndarray) list,
        target_x = 0, target_y = 0, target_w = 1, target_h = 1\<rparr> 0 0 \<and>
   compose_canvas small_machine 1 1 (1::real)
     [\<lparr>frames = [(0, \<lparr>nrows = 1, ncols = 1, pix = [[(255, 255, 255)]]\<rparr>)],
       target_x = 0, target_y = 0, target_w = 1, target_h = 1\<rparr>,
      \<lparr>frames = [], target_x = 0, target_y = 0, target_w = 1, target_h = 1\<rparr>]
   = Inr ([\<lparr>frames = [(0, \<lparr>nrows = 1, ncols = 1, pix = [[(255, 255, 255)]]\<rparr>)],
            target_x = 0, target_y = 0, target_w = 1, target_h = 1\<rparr>,
           \<lparr>frames = [], target_x = 0, target_y = 0, target_w = 1, target_h = 1\<rparr>],
          \<lparr>nrows = 1, ncols = 1, pix = [[(255, 255, 255)]]\<rparr>) \<and>
   ((255, 255, 255) :: pixel) \<noteq> (0, 0, 0)"
proof -
  have "((255, 255, 255) :: pixel) \<noteq> (0, 0, 0)"
    by simp
  then show ?thesis
    by (simp add: canvas_eval buffer_eval)
qed

theorem missing_frame_leaves_canvas_witness:
  "draw_frame small_machine (1::real)
     \<lparr>frames = [(4, \<lparr>nrows = 1, ncols = 1, pix = [[(255, 255, 255)]]\<rparr>)],
      target_x = 0, target_y = 0, target_w = 1, target_h = 1\<rparr>
     \<lparr>nrows = 1, ncols = 2, pix = [[(7, 7, 7), (9, 9, 9)]]\<rparr>
   = Inr (\<lparr>frames = [(4, \<lparr>nrows = 1, ncols = 1, pix = [[(255, 255, 255)]]\<rparr>)],
           target_x = 0, target_y = 0, target_w = 1, target_h = 1\<rparr>,
          \<lparr>nrows = 1, ncols = 2, pix = [[(7, 7, 7), (9, 9, 9)]]\<rparr>)"
proof -
  have none: "\<not> has_frame (1::real)
     \<lparr>frames = [(4, \<lparr>nrows = 1, ncols = 1, pix = [[(255, 255, 255)]]\<rparr>)],
      target_x = 0, target_y = 0, target_w = 1, target_h = 1\<rparr>"
    by (simp add: has_frame_def)
  from missing_frame_leaves_canvas [OF none] show ?thesis by blast
qed

text \<open>
  Claim C10 as stated fails for a negative offset: \<open>x = -2\<close>, \<open>w = 2\<close> on a canvas of
  width 2 satisfies \<open>x + w \<le> 2\<close>, but the slice \<open>-2:0\<close> is empty and the write of a
  two-column image raises \<open>ValueError\<close>.
\<close>

theorem region_write_in_bounds_counterexample:
  "(- 2 :: int) + 2 \<le> 2 \<and> (0 :: int) + 1 \<le> 2 \<and> (0 :: int) < 2 \<and> (0 :: int) < 1 \<and>
   cv2_resize small_machine \<lparr>nrows = 1, ncols = 1, pix = [[(255, 255, 255)]]\<rparr> (2, 1)
     = Inr \<lparr>nrows = 1, ncols = 2, pix = [[(255, 255, 255), (255, 255, 255)]]\<rparr> \<and>
   setitem_slice
     \<lparr>nrows = 2, ncols = 2, pix = [[(0, 0, 0), (0, 0, 0)], [(0, 0, 0), (0, 0, 0)]]\<rparr>
     0 (0 + 1) (- 2) (- 2 + 2)
     \<lparr>nrows = 1, ncols = 2, pix = [[(255, 255, 255), (255, 255, 255)]]\<rparr>
   = Inl ValueError"
  by (simp add: canvas_eval py_clip_def)

theorem region_write_in_bounds_witness:
  "region_ok 2 2
     \<lparr>frames = [] :: (real \<times> ndarray) list,
      target_x = 1, target_y = 0, target_w = 1, target_h = 2\<rparr> \<and>
   cv2_resize small_machine \<lparr>nrows = 1, ncols = 1, pix = [[(255, 255, 255)]]\<rparr> (1, 2)
     = Inr \<lparr>nrows = 2, ncols = 1, pix = [[(255, 255, 255)], [(255, 255, 255)]]\<rparr> \<and>
   setitem_slice
     \<lparr>nrows = 2, ncols = 2, pix = [[(0, 0, 0), (0, 0, 0)], [(0, 0, 0), (0, 0, 0)]]\<rparr>
     0 (0 + 2) 1 (1 + 1)
     \<lparr>nrows = 2, ncols = 1, pix = [[(255, 255, 255)], [(255, 255, 255)]]\<rparr>
   = Inr \<lparr>nrows = 2, ncols = 2,
          pix = [[(0, 0, 0), (255, 255, 255)], [(0, 0, 0), (255, 255, 255)]]\<rparr>"
proof -
  let ?fw = "\<lparr>frames = [] :: (real \<times> ndarray) list,
      target_x = 1, target_y = 0, target_w = 1, target_h = 2\<rparr>"
  let ?canvas = "\<lparr>nrows = 2, ncols = 2, pix = [[(0, 0, 0), (0, 0, 0)], [(0, 0, 0), (0, 0, 0)]]\<rparr>"
  let ?resized = "\<lparr>nrows = 2, ncols = 1, pix = [[(255, 255, 255)], [(255, 255, 255)]]\<rparr>"
  have ok: "region_ok (int (nrows ?canvas)) (int (ncols ?canvas)) ?fw"
    by (simp add: region_ok_def)
  have rz: "cv2_resize small_machine \<lparr>nrows = 1, ncols = 1, pix = [[(255, 255, 255)]]\<rparr>
      (target_w ?fw, target_h ?fw) = Inr ?resized"
    by (simp add: cv2_resize_def nearest_def small_machine_def INT_MAX_def numeral_2_eq_2)
  from region_write_in_bounds [OF ok rz] ok rz show ?thesis
    by (simp add: canvas_eval py_clip_def)
qed




section \<open>Properties of the session and the tick loop\<close>

subsection \<open>The service callbacks\<close>

lemma terminate_Inr:
  "terminate t self = Inr (self', evs) \<Longrightarrow>
   \<not> record_flag self' \<and> end_time self' = t \<and> interval self' = interval self \<and>
   video_writer self' = video_writer self \<and> output_file self' = output_file self \<and>
   sleeps evs = [] \<and> canvases evs = []"
  by (auto simp: terminate_def split: option.splits)

lemma terminate_raises: "terminate t self = Inl e \<longleftrightarrow> output_file self = None \<and> e = AttributeError"
  by (auto simp: terminate_def split: option.splits)

text \<open>
  \<open>start\<close> always answers and leaves the flag set, so a second \<open>start\<close> changes nothing;
  \<open>stop\<close> on a cleared flag answers and changes nothing. \<open>stop\<close> on a set flag goes
  through \<open>terminate\<close> and raises exactly when \<open>output_file\<close> was never assigned.
\<close>

lemma start_srv_cb_returns: "\<exists>self' evs. start_srv_cb self = Inr (self', evs) \<and> record_flag self'"
  by (simp add: start_srv_cb_def)

lemma start_srv_cb_idempotent:
  "start_srv_cb self = Inr (self', evs) \<Longrightarrow> \<exists>evs'. start_srv_cb self' = Inr (self', evs')"
  by (auto simp: start_srv_cb_def split: if_splits)

lemma stop_srv_cb_noop:
  "\<not> record_flag self \<Longrightarrow>
   stop_srv_cb t self = Inr (self, [LogInfo ''[ros-video-recorder] Record already Stopped.''])"
  by (simp add: stop_srv_cb_def)

lemma stop_srv_cb_raises_iff:
  "stop_srv_cb t self = Inl e \<longleftrightarrow> record_flag self \<and> output_file self = None \<and> e = AttributeError"
  by (auto simp: stop_srv_cb_def terminate_def split: option.splits)

subsection \<open>One tick\<close>

lemma sleeps_append: "sleeps (xs @ ys) = sleeps xs @ sleeps ys"
  by (induction xs rule: sleeps.induct) simp_all

lemma canvases_append: "canvases (xs @ ys) = canvases xs @ canvases ys"
  by (induction xs rule: canvases.induct) simp_all

lemma sleeps_replicate: "sleeps (replicate n (Sleep d)) = replicate n d"
  by (induction n) simp_all

lemma canvases_replicate: "canvases (replicate n (Sleep d)) = []"
  by (induction n) simp_all

lemma wait_loop_overrun: "curr_time + ival \<le> reading \<Longrightarrow> wait_loop curr_time ival (reading # rest) = Some 0"
  by simp

lemma wait_loop_returns:
  "\<exists>reading\<in>set rs. curr_time + ival \<le> reading \<Longrightarrow> \<exists>n. wait_loop curr_time ival rs = Some n \<and> n < length rs"
  by (induction rs) auto


lemma tick_Advanced:
  assumes "tick lib env self curr_time = Advanced self' curr' evs"
  shows "curr' = curr_time + interval self"
    and "\<exists>n. wait_loop curr_time (interval self) (readings env) = Some n \<and>
            sleeps evs = (1 / 100) # replicate n (interval self)"
    and "length (canvases evs) = (if video_writer self = None then 0 else 1)"
    and "\<not> interrupted env"
  using assms
  by (auto simp: tick_def Let_def sleeps_append sleeps_replicate canvases_append
      canvases_replicate dest!: terminate_Inr
      split: sum.splits prod.splits option.splits if_splits)

lemma tick_Caught:
  assumes "tick lib env self curr_time = Caught self' curr' evs"
  shows "curr' = curr_time" and "\<not> record_flag self'" and "interrupted env"
  using assms
  by (auto simp: tick_def Let_def dest!: terminate_Inr
      split: sum.splits prod.splits option.splits if_splits)

lemma tick_overrun:
  assumes comp: "compose_canvas lib (output_height self) (output_width self) curr_time
        (frame_wrappers self) = Inr (wrappers, canvas)"
    and quiet: "\<not> interrupted env"
    and fin: "\<not> (is_shutdown env \<and> end_time self < 0 \<and> output_file self = None)"
    and rd: "readings env = reading # rest" and over: "curr_time + interval self \<le> reading"
  shows "\<exists>self' evs. tick lib env self curr_time = Advanced self' (curr_time + interval self) evs \<and>
           sleeps evs = [1 / 100] \<and>
           canvases evs = (if video_writer self = None then [] else [canvas])"
proof (cases "is_shutdown env \<and> end_time self < 0")
  case False
  with comp quiet rd over show ?thesis
    by (auto simp: tick_def Let_def sleeps_append canvases_append)
next
  case True
  with fin obtain name where "output_file self = Some name" by auto
  with True comp quiet rd over show ?thesis
    by (auto simp: tick_def Let_def terminate_def sleeps_append canvases_append)
qed

text \<open>
  Claim C5, as amended. A tick whose body runs to its end advances \<open>curr_time\<close> by
  exactly one interval, its sleeps are the unconditional \<open>rospy.sleep(0.01)\<close> followed
  by one \<open>rospy.sleep(interval)\<close> for each turn of the wait loop, and it writes exactly
  one canvas when there is a writer. A tick that catches a \<open>KeyboardInterrupt\<close> leaves
  \<open>curr_time\<close> as it was and clears the flag. When the composition succeeds, no
  interrupt arrives, \<open>terminate\<close> is not due on a recorder without \<open>output_file\<close>, and
  the first clock reading of the wait is at or past \<open>curr_time + interval\<close>, the tick
  runs to its end, the wait loop does not sleep, and the only sleep of the tick is the
  unconditional one.
\<close>

theorem tick_cadence:
  "(\<forall>self' curr' evs. tick lib env self curr_time = Advanced self' curr' evs \<longrightarrow>
       curr' = curr_time + interval self \<and>
       (\<exists>n. wait_loop curr_time (interval self) (readings env) = Some n \<and>
            sleeps evs = (1 / 100) # replicate n (interval self)) \<and>
       length (canvases evs) = (if video_writer self = None then 0 else 1)) \<and>
   (\<forall>self' curr' evs. tick lib env self curr_time = Caught self' curr' evs \<longrightarrow>
       curr' = curr_time \<and> \<not> record_flag self') \<and>
   (\<forall>wrappers canvas reading rest.
       compose_canvas lib (output_height self) (output_width self) curr_time
         (frame_wrappers self) = Inr (wrappers, canvas) \<and>
       \<not> interrupted env \<and>
       \<not> (is_shutdown env \<and> end_time self < 0 \<and> output_file self = None) \<and>
       readings env = reading # rest \<and> curr_time + interval self \<le> reading \<longrightarrow>
       (\<exists>self' evs. tick lib env self curr_time = Advanced self' (curr_time + interval self) evs \<and>
           sleeps evs = [1 / 100] \<and>
           canvases evs = (if video_writer self = None then [] else [canvas])))"
proof (intro conjI allI impI)
  fix self' curr' evs
  assume a: "tick lib env self curr_time = Advanced self' curr' evs"
  from tick_Advanced [OF a]
  show "curr' = curr_time + interval self"
    and "\<exists>n. wait_loop curr_time (interval self) (readings env) = Some n \<and>
            sleeps evs = (1 / 100) # replicate n (interval self)"
    and "length (canvases evs) = (if video_writer self = None then 0 else 1)"
    by simp_all
next
  fix self' curr' evs
  assume c: "tick lib env self curr_time = Caught self' curr' evs"
  from tick_Caught [OF c] show "curr' = curr_time" and "\<not> record_flag self'"
    by simp_all
next
  fix wrappers canvas reading rest
  assume "compose_canvas lib (output_height self) (output_width self) curr_time
         (frame_wrappers self) = Inr (wrappers, canvas) \<and>
       \<not> interrupted env \<and>
       \<not> (is_shutdown env \<and> end_time self < 0 \<and> output_file self = None) \<and>
       readings env = reading # rest \<and> curr_time + interval self \<le> reading"
  then show "\<exists>self' evs. tick lib env self curr_time = Advanced self' (curr_time + interval self) evs \<and>
           sleeps evs = [1 / 100] \<and>
           canvases evs = (if video_writer self = None then [] else [canvas])"
    using tick_overrun [of lib self curr_time wrappers canvas env reading rest] by blast
qed


subsection \<open>Stop, then start again\<close>

lemma start_record_step_limit:
  "\<not> record_flag (obj st) \<Longrightarrow> limit \<le> depth st \<Longrightarrow>
   loop (start_record_step lib limit env st) = Crashed RuntimeError"
  by (simp add: start_record_step_def Let_def)




subsection \<open>Concrete ticks and sessions\<close>

lemmas tick_eval =
  compose_canvas_def draw_frame_def np_zeros_def cv2_resize_def nearest_def setitem_slice_def
  slice_range_def has_frame_def covers_def region_ok_def small_machine_def INT_MAX_def

lemmas session_eval =
  run_def step_def alive_def serve_def boot_def record_spin_step_def start_record_step_def
  start_srv_cb_def stop_srv_cb_def terminate_def tick_def VideoRecorder_init_def
  stopped_def recording_def Let_def

text \<open>
  Claim C5 as stated fails on the sleep that every tick performs: with the clock at 11,
  past \<open>curr_time + interval = 10.5\<close>, the tick still sleeps 10 ms before it proceeds.
\<close>

theorem tick_cadence_counterexample:
  "(10::real) + 1 / 2 \<le> 11 \<and>
   tick small_machine
     \<lparr>is_shutdown = False, interrupted = False, clock = 11, stamp = [],
      bridge_fails = False, readings = [11]\<rparr>
     \<lparr>frame_wrappers = [], start_time = 10, end_time = - 1, pub_img = None,
      fps = 2, interval = 1 / 2, output_width = 1, output_height = 1,
      record_flag = True, output_path = ''out.avi'',
      output_file = Some ''out.avi'', video_writer = Some ''out.avi''\<rparr>
     10
   = Advanced
     \<lparr>frame_wrappers = [], start_time = 10, end_time = - 1, pub_img = None,
      fps = 2, interval = 1 / 2, output_width = 1, output_height = 1,
      record_flag = True, output_path = ''out.avi'',
      output_file = Some ''out.avi'', video_writer = Some ''out.avi''\<rparr>
     (21 / 2)
     [Wrote \<lparr>nrows = 1, ncols = 1, pix = [[(0, 0, 0)]]\<rparr>, Sleep (1 / 100)]"
  by (simp add: tick_def tick_eval)

theorem tick_cadence_witness:
  "tick small_machine
     \<lparr>is_shutdown = False, interrupted = False, clock = 11, stamp = [],
      bridge_fails = False, readings = [51 / 5, 53 / 5]\<rparr>
     \<lparr>frame_wrappers = [], start_time = 10, end_time = - 1, pub_img = None,
      fps = 2, interval = 1 / 2, output_width = 1, output_height = 1,
      record_flag = True, output_path = ''out.avi'',
      output_file = Some ''out.avi'', video_writer = Some ''out.avi''\<rparr>
     10
   = Advanced
     \<lparr>frame_wrappers = [], start_time = 10, end_time = - 1, pub_img = None,
      fps = 2, interval = 1 / 2, output_width = 1, output_height = 1,
      record_flag = True, output_path = ''out.avi'',
      output_file = Some ''out.avi'', video_writer = Some ''out.avi''\<rparr>
     (21 / 2)
     [Wrote \<lparr>nrows = 1, ncols = 1, pix = [[(0, 0, 0)]]\<rparr>, Sleep (1 / 100), Sleep (1 / 2)] \<and>
   wait_loop 10 (1 / 2) [51 / 5, 53 / 5] = Some 1 \<and>
   sleeps [Wrote \<lparr>nrows = 1, ncols = 1, pix = [[(0, 0, 0)]]\<rparr>, Sleep (1 / 100), Sleep (1 / 2)]
     = [1 / 100, 1 / 2]"
proof -
  let ?env = "\<lparr>is_shutdown = False, interrupted = False, clock = 11, stamp = [],
      bridge_fails = False, readings = [51 / 5, 53 / 5]\<rparr>"
  let ?self = "\<lparr>frame_wrappers = [], start_time = 10, end_time = - 1, pub_img = None,
      fps = 2, interval = 1 / 2, output_width = 1, output_height = 1,
      record_flag = True, output_path = ''out.avi'',
      output_file = Some ''out.avi'', video_writer = Some ''out.avi''\<rparr>"
  let ?evs = "[Wrote \<lparr>nrows = 1, ncols = 1, pix = [[(0, 0, 0)]]\<rparr>, Sleep (1 / 100), Sleep (1 / 2)]"
  have run: "tick small_machine ?env ?self 10 = Advanced ?self (21 / 2) ?evs"
    by (simp add: tick_def tick_eval)
  have w: "wait_loop 10 (1 / 2) [51 / 5, 53 / 5 :: real] = Some 1"
    by simp
  from tick_cadence [of small_machine ?env ?self 10] run w
  show ?thesis by simp
qed



text \<open>
  Claim C3 at its failing input: a recorder built with the default empty
  \<open>output_path\<close> and \<open>initial_start\<close> set. \<open>record_spin\<close> starts the recording without
  assigning \<open>output_file\<close>, and \<open>stop\<close> then raises \<open>AttributeError\<close> in \<open>terminate\<close>
  instead of answering.
\<close>

theorem stop_srv_cb_raises:
  "VideoRecorder_init 640 480 30 [] True
   = Inr \<lparr>frame_wrappers = [], start_time = - 1, end_time = - 1, pub_img = None,
          fps = 30, interval = 1 / 30, output_width = 640, output_height = 480,
          record_flag = True, output_path = [], output_file = None, video_writer = None\<rparr> \<and>
   run small_machine 100
     [Main \<lparr>is_shutdown = False, interrupted = False, clock = 1, stamp = ''20240101_000000'',
            bridge_fails = False, readings = []\<rparr>]
     (boot \<lparr>frame_wrappers = [], start_time = - 1, end_time = - 1, pub_img = None,
          fps = 30, interval = 1 / 30, output_width = 640, output_height = 480,
          record_flag = True, output_path = [], output_file = None, video_writer = None\<rparr>)
   = \<lparr>obj = \<lparr>frame_wrappers = [], start_time = 1, end_time = - 1, pub_img = None,
          fps = 30, interval = 1 / 30, output_width = 640, output_height = 480,
          record_flag = True, output_path = [], output_file = None, video_writer = None\<rparr>,
      loop = Ticking, tick_time = 1, depth = 1, trace = []\<rparr> \<and>
   stop_srv_cb 5
     \<lparr>frame_wrappers = [], start_time = 1, end_time = - 1, pub_img = None,
      fps = 30, interval = 1 / 30, output_width = 640, output_height = 480,
      record_flag = True, output_path = [], output_file = None, video_writer = None\<rparr>
   = Inl AttributeError"
  by (simp add: session_eval)




end
